theory Spec2Isabelle
  imports Complex_Main "HOL-Library.Word"
begin

section \<open>Lightning-rod agent: board, session, tunnel and reverse-proxy managers\<close>

text \<open>
  A shallow embedding of the Go packages \<open>board\<close>, \<open>config\<close>, \<open>wamp\<close>, \<open>service\<close> and
  \<open>webservice\<close>. Every method becomes a function from the outcome of the calls it makes
  to the outside world (\<open>env\<close>) and the state of the process and its disk (\<open>world\<close>) to
  its Go return value and the new state. A Go \<open>error\<close> is a value of type \<open>error\<close>
  carrying the message \<open>fmt.Errorf\<close> builds; \<open>nil\<close> is \<open>None\<close>. A run-time panic is the
  value \<open>Panic\<close>. The read/write locks are not modelled: every method below holds its
  manager's lock from entry to exit, so the methods of one manager run one after another.
\<close>

subsection \<open>Formatting\<close>

definition digit :: "nat \<Rightarrow> char" where
  "digit d = ''0123456789'' ! d"

fun decimal :: "nat \<Rightarrow> string" where
  "decimal n = (if n < 10 then [digit n] else decimal (n div 10) @ [digit (n mod 10)])"

declare decimal.simps [simp del]

text \<open>\<open>fmt.Sprintf("%d", i)\<close> for a signed integer.\<close>

definition Sprintf_d :: "int \<Rightarrow> string" where
  "Sprintf_d i = (if i < 0 then CHR ''-'' # decimal (nat (- i)) else decimal (nat i))"

subsection \<open>Values, errors and replies\<close>

text \<open>
  An argument of an invocation is a Go \<open>any\<close>: what the WAMP serializer decoded. JSON
  numbers arrive as \<open>float64\<close> (\<open>ANum\<close>); binary serializers deliver integers as
  \<open>int64\<close> (\<open>AInt\<close>).
\<close>

datatype any =
    AStr string
  | ANum real
  | AInt int
  | ABool bool
  | ANil
  | AList "any list"
  | ADict "(string \<times> any) list"

datatype error = Errorf string | Panic

fun Error_msg :: "error \<Rightarrow> string" where
  "Error_msg (Errorf m) = m"
| "Error_msg Panic = ''runtime error: invalid memory address or nil pointer dereference''"

text \<open>The map every handler returns as the single positional result.\<close>

record reply =
  result :: string
  message :: string

subsection \<open>Configuration and board settings (package config)\<close>

text \<open>The fields of \<open>config.Config\<close> that the modelled code reads, without the nesting.\<close>

record Config =
  Home :: string
  SkipCertVerify :: bool
  WstunBin :: string
  Proxy :: string

record WampAgent =
  URL :: string
  Realm :: string

record BoardConfig =
  cfg_UUID :: string
  cfg_Code :: string
  cfg_Name :: string
  cfg_Status :: string
  cfg_Type :: string
  cfg_Mobile :: bool
  cfg_Agent :: string
  cfg_CreatedAt :: string
  cfg_UpdatedAt :: string
  cfg_Location :: "(string \<times> any) list"
  cfg_Extra :: "(string \<times> any) list"

record WampConfiguration =
  MainAgent :: "WampAgent option"
  RegistrationAgent :: "WampAgent option"

record IotronicSettings =
  iot_Board :: BoardConfig
  iot_WAMP :: WampConfiguration
  iot_Extra :: "(string \<times> any) list"

record BoardSettings =
  Iotronic :: IotronicSettings

definition DefaultSettingsFile :: string where
  "DefaultSettingsFile = ''/etc/iotronic/settings.json''"

subsection \<open>Registry records\<close>

record ServiceInfo =
  Name :: string
  LocalPort :: int
  PublicURL :: string
  PID :: int
  Status :: string

record WebServiceInfo =
  ws_Name :: string
  ws_LocalPort :: int
  ws_PublicPort :: int
  ws_Domain :: string
  ws_Status :: string

subsection \<open>The disk\<close>

text \<open>
  A file holds either bytes that are no JSON document (\<open>Raw\<close>) or the JSON text of a
  value, represented by the value: \<open>json.MarshalIndent\<close> followed by
  \<open>json.Unmarshal\<close> is taken to be the identity on the documents the agent writes.
\<close>

datatype contents =
    Raw string
  | ServicesDoc "string \<rightharpoonup> ServiceInfo"
  | SettingsDoc BoardSettings

type_synonym path = string

subsection \<open>The board and the session (packages board and wamp)\<close>

record Board =
  UUID :: string
  Code :: string
  b_Name :: string
  b_Status :: string
  b_Type :: string
  Mobile :: bool
  Agent :: string
  CreatedAt :: string
  UpdatedAt :: string
  Location :: "(string \<times> any) list"
  Extra :: "(string \<times> any) list"
  SessionID :: string
  WampConfig :: "WampAgent option"
  settings :: "BoardSettings option"

record Client =
  client :: "64 word option"
  connected :: bool
  sessionID :: "64 word"

subsection \<open>The process and the world around it\<close>

text \<open>
  \<open>registered\<close> lists the procedure names handed to the session's \<open>Register\<close>, oldest
  first; \<open>procs\<close> is the set of identifiers of the tunnel processes that are running.
\<close>

record world =
  disk :: "path \<rightharpoonup> contents"
  procs :: "int set"
  cfg :: Config
  board :: Board
  wamp :: Client
  registered :: "string list"
  wstunURL :: string
  services :: "string \<rightharpoonup> ServiceInfo"
  webservices :: "string \<rightharpoonup> WebServiceInfo"

text \<open>
  What the outside world answers during one call: the error of a write to a path, of a
  read and of a removal, the failure of \<open>nginx -t\<close> and of \<open>nginx -s reload\<close> (their
  output), the process identifier of a started
  command, the session identifier of a new connection, the error of a registration, the
  formatted current time, and the lexical normalisation \<open>filepath.Clean\<close>.
\<close>

record env =
  WriteFile_err :: "path \<Rightarrow> string option"
  ReadFile_err :: "path \<Rightarrow> string option"
  Remove_err :: "path \<Rightarrow> string option"
  nginx_t :: "string option"
  nginx_reload :: "string option"
  cmd_Start :: "string list \<Rightarrow> string + int"
  ConnectNet :: "string \<Rightarrow> string \<Rightarrow> string + 64 word"
  Register_err :: "string \<Rightarrow> string option"
  Now :: string
  Clean :: "path \<Rightarrow> path"

text \<open>
  \<open>filepath.Join\<close> of two elements: empty elements are dropped, the result is cleaned,
  and joining nothing gives the empty path.
\<close>

definition filepath_Join :: "env \<Rightarrow> path \<Rightarrow> path \<Rightarrow> path" where
  "filepath_Join e a b =
     (if a = [] \<and> b = [] then []
      else Clean e (if a = [] then b else if b = [] then a else a @ ''/'' @ b))"

text \<open>A write that fails leaves the disk as it was.\<close>

definition os_WriteFile :: "env \<Rightarrow> world \<Rightarrow> path \<Rightarrow> contents \<Rightarrow> error option \<times> world" where
  "os_WriteFile e w p f =
     (case WriteFile_err e p of
        Some m \<Rightarrow> (Some (Errorf m), w)
      | None \<Rightarrow> (None, w\<lparr>disk := (disk w)(p \<mapsto> f)\<rparr>))"

text \<open>
  \<open>os.Remove\<close> can fail as a write can (no permission on the directory, a read-only
  file system), and then the file stays. Otherwise a path that does not exist gives the
  error \<open>os.IsNotExist\<close> recognises (the \<open>True\<close> flag), and a file that exists is
  removed.
\<close>

definition os_Remove :: "env \<Rightarrow> world \<Rightarrow> path \<Rightarrow> (error \<times> bool) option \<times> world" where
  "os_Remove e w p =
     (case Remove_err e p of
        Some m \<Rightarrow> (Some (Errorf m, False), w)
      | None \<Rightarrow>
          (case disk w p of
             None \<Rightarrow>
               (Some (Errorf (''remove '' @ p @ '': no such file or directory''), True), w)
           | Some f \<Rightarrow> (None, w\<lparr>disk := (disk w)(p := None)\<rparr>)))"

subsection \<open>Service (tunnel) manager (package service)\<close>

text \<open>
  \<open>wstunURL\<close> is the address \<open>NewManager\<close> derives from the WAMP URL. An entry of
  \<open>services\<close> is a record, never a nil pointer: the entries are those \<open>exposeService\<close>
  stores. \<open>json.MarshalIndent\<close> of a \<open>ServicesConfig\<close> cannot fail, so
  \<open>saveServicesConfig\<close> fails exactly when the write does. An error of
  \<open>saveServicesConfig\<close> is only logged by \<open>exposeService\<close>.
\<close>

definition saveServicesConfig :: "env \<Rightarrow> world \<Rightarrow> error option \<times> world" where
  "saveServicesConfig e w =
     (let configPath = filepath_Join e (Home (cfg w)) ''services.json''
      in os_WriteFile e w configPath (ServicesDoc (services w)))"

definition exposeService :: "env \<Rightarrow> world \<Rightarrow> string \<Rightarrow> int \<Rightarrow> error option \<times> world" where
  "exposeService e w name localPort =
     (if services w name \<noteq> None
      then (Some (Errorf (''service '' @ name @ '' already exposed'')), w)
      else
        case cmd_Start e [WstunBin (cfg w), ''client'', ''-s'', wstunURL w,
                          ''-t'', ''127.0.0.1:'' @ Sprintf_d localPort] of
          Inl m \<Rightarrow> (Some (Errorf (''failed to start wstun: '' @ m)), w)
        | Inr pid \<Rightarrow>
            let w1 = w\<lparr>procs := insert pid (procs w)\<rparr>;
                publicURL = wstunURL w1 @ ''/'' @ name;
                w2 = w1\<lparr>services := (services w1)(name \<mapsto>
                        \<lparr>Name = name, LocalPort = localPort, PublicURL = publicURL,
                         PID = pid, Status = ''running''\<rparr>)\<rparr>;
                w3 = snd (saveServicesConfig e w2)
            in (None, w3))"

text \<open>
  \<open>stopService\<close> runs with the lock held. \<open>os.FindProcess\<close> always succeeds on Unix and
  an error of \<open>Kill\<close> is only logged, as is an error of \<open>saveServicesConfig\<close>.
\<close>

definition stopService :: "env \<Rightarrow> world \<Rightarrow> string \<Rightarrow> error option \<times> world" where
  "stopService e w name =
     (case services w name of
        None \<Rightarrow> (Some (Errorf (''service '' @ name @ '' not found'')), w)
      | Some svc \<Rightarrow>
          let w1 = (if PID svc > 0 then w\<lparr>procs := procs w - {PID svc}\<rparr> else w);
              w2 = w1\<lparr>services := (services w1)(name := None)\<rparr>;
              w3 = snd (saveServicesConfig e w2)
          in (None, w3))"

definition unexposeService :: "env \<Rightarrow> world \<Rightarrow> string \<Rightarrow> error option \<times> world" where
  "unexposeService e w name = stopService e w name"

text \<open>
  A type assertion \<open>v, ok := x.(T)\<close> gives the value and \<open>True\<close>, or the zero value
  of \<open>T\<close> and \<open>False\<close>.
\<close>

fun assert_string :: "any \<Rightarrow> string \<times> bool" where
  "assert_string (AStr s) = (s, True)"
| "assert_string _ = ('''', False)"

fun assert_float64 :: "any \<Rightarrow> real \<times> bool" where
  "assert_float64 (ANum f) = (f, True)"
| "assert_float64 _ = (0, False)"

text \<open>
  The conversion \<open>int(f)\<close> of a \<open>float64\<close> drops the fraction. For a value that no
  \<open>int\<close> represents the Go specification leaves the result to the implementation; taken
  here is an \<open>int\<close> of 64 bits and, out of its range, the least \<open>int\<close>, as amd64 gives.
\<close>

definition go_int :: "real \<Rightarrow> int" where
  "go_int f =
     (let t = (if 0 \<le> f then \<lfloor>f\<rfloor> else \<lceil>f\<rceil>)
      in if - (2 ^ 63) \<le> t \<and> t < 2 ^ 63 then t else - (2 ^ 63))"

definition handleExposeService :: "env \<Rightarrow> world \<Rightarrow> any list \<Rightarrow> reply \<times> world" where
  "handleExposeService e w Arguments =
     (if length Arguments < 2
      then (\<lparr>result = ''ERROR'',
             message = ''Missing arguments: service_name and local_port required''\<rparr>, w)
      else
        let (serviceName, ok) = assert_string (Arguments ! 0) in
        if \<not> ok then (\<lparr>result = ''ERROR'', message = ''Invalid service_name type''\<rparr>, w)
        else
          let (localPort, ok) = assert_float64 (Arguments ! 1) in
          if \<not> ok then (\<lparr>result = ''ERROR'', message = ''Invalid local_port type''\<rparr>, w)
          else
            case exposeService e w serviceName (go_int localPort) of
              (Some err, w') \<Rightarrow>
                (\<lparr>result = ''ERROR'',
                  message = ''Failed to expose service: '' @ Error_msg err\<rparr>, w')
            | (None, w') \<Rightarrow>
                (\<lparr>result = ''SUCCESS'',
                  message = ''Service '' @ serviceName @ '' exposed on port ''
                            @ Sprintf_d (go_int localPort)\<rparr>, w'))"

definition handleUnexposeService :: "env \<Rightarrow> world \<Rightarrow> any list \<Rightarrow> reply \<times> world" where
  "handleUnexposeService e w Arguments =
     (if length Arguments < 1
      then (\<lparr>result = ''ERROR'', message = ''Missing argument: service_name required''\<rparr>, w)
      else
        let (serviceName, ok) = assert_string (Arguments ! 0) in
        if \<not> ok then (\<lparr>result = ''ERROR'', message = ''Invalid service_name type''\<rparr>, w)
        else
          case unexposeService e w serviceName of
            (Some err, w') \<Rightarrow>
              (\<lparr>result = ''ERROR'',
                message = ''Failed to unexpose service: '' @ Error_msg err\<rparr>, w')
          | (None, w') \<Rightarrow>
              (\<lparr>result = ''SUCCESS'',
                message = ''Service '' @ serviceName @ '' unexposed''\<rparr>, w'))"

subsection \<open>WebService (reverse-proxy) manager (package webservice)\<close>

definition nginxConfDir :: string where
  "nginxConfDir = ''/etc/nginx/conf.d''"

definition confPath :: "env \<Rightarrow> string \<Rightarrow> path" where
  "confPath e name = filepath_Join e nginxConfDir (''lr_'' @ name @ ''.conf'')"

definition nl :: string where
  "nl = [CHR 0x0A]"

text \<open>The server block, with \<open>publicPort\<close> and \<open>localPort\<close> in place of the two \<open>%d\<close>.\<close>

definition nginxConf :: "int \<Rightarrow> int \<Rightarrow> string" where
  "nginxConf publicPort localPort = concat
     [nl,
      ''server {'', nl,
      ''    listen '', Sprintf_d publicPort, '';'', nl,
      ''    server_name _;'', nl,
      nl,
      ''    location / {'', nl,
      ''        proxy_pass http://127.0.0.1:'', Sprintf_d localPort, '';'', nl,
      ''        proxy_set_header Host $host;'', nl,
      ''        proxy_set_header X-Real-IP $remote_addr;'', nl,
      ''        proxy_set_header X-Forwarded-For $proxy_add_x_forwarded_for;'', nl,
      ''        proxy_set_header X-Forwarded-Proto $scheme;'', nl,
      ''    }'', nl,
      ''}'', nl]"

text \<open>\<open>nginx -t\<close>, then \<open>nginx -s reload\<close>; the first failure is returned.\<close>

definition reloadNginx :: "env \<Rightarrow> error option" where
  "reloadNginx e =
     (case nginx_t e of
        Some output \<Rightarrow> Some (Errorf (''nginx config test failed: '' @ output))
      | None \<Rightarrow>
          (case nginx_reload e of
             Some output \<Rightarrow> Some (Errorf (''nginx reload failed: '' @ output))
           | None \<Rightarrow> None))"

text \<open>
  When the proxy check fails, \<open>enableWebService\<close> calls \<open>os.Remove\<close> on the artifact
  and discards its result.
\<close>

definition enableWebService ::
  "env \<Rightarrow> world \<Rightarrow> string \<Rightarrow> int \<Rightarrow> int \<Rightarrow> error option \<times> world" where
  "enableWebService e w name localPort publicPort =
     (if webservices w name \<noteq> None
      then (Some (Errorf (''webservice '' @ name @ '' already enabled'')), w)
      else
        case os_WriteFile e w (confPath e name) (Raw (nginxConf publicPort localPort)) of
          (Some err, w1) \<Rightarrow>
            (Some (Errorf (''failed to write nginx config: '' @ Error_msg err)), w1)
        | (None, w1) \<Rightarrow>
            (case reloadNginx e of
               Some err \<Rightarrow>
                 (Some (Errorf (''failed to reload nginx: '' @ Error_msg err)),
                  snd (os_Remove e w1 (confPath e name)))
             | None \<Rightarrow>
                 (None, w1\<lparr>webservices := (webservices w1)(name \<mapsto>
                    \<lparr>ws_Name = name, ws_LocalPort = localPort, ws_PublicPort = publicPort,
                     ws_Domain = '''', ws_Status = ''enabled''\<rparr>)\<rparr>)))"

text \<open>
  \<open>removeWebService\<close> runs with the lock held. An error of \<open>os.Remove\<close> is logged
  unless it says that the file does not exist, and an error of \<open>reloadNginx\<close> is logged;
  neither is returned.
\<close>

definition removeWebService :: "env \<Rightarrow> world \<Rightarrow> string \<Rightarrow> error option \<times> world" where
  "removeWebService e w name =
     (if webservices w name = None
      then (Some (Errorf (''webservice '' @ name @ '' not found'')), w)
      else
        let w1 = snd (os_Remove e w (confPath e name));
            logged = reloadNginx e
        in (None, w1\<lparr>webservices := (webservices w1)(name := None)\<rparr>))"

definition disableWebService :: "env \<Rightarrow> world \<Rightarrow> string \<Rightarrow> error option \<times> world" where
  "disableWebService e w name = removeWebService e w name"

definition handleEnableWebService :: "env \<Rightarrow> world \<Rightarrow> any list \<Rightarrow> reply \<times> world" where
  "handleEnableWebService e w Arguments =
     (if length Arguments < 3
      then (\<lparr>result = ''ERROR'',
             message = ''Missing arguments: name, local_port, and public_port required''\<rparr>, w)
      else
        let name = fst (assert_string (Arguments ! 0));
            localPort = fst (assert_float64 (Arguments ! 1));
            publicPort = fst (assert_float64 (Arguments ! 2))
        in case enableWebService e w name (go_int localPort) (go_int publicPort) of
             (Some err, w') \<Rightarrow>
               (\<lparr>result = ''ERROR'',
                 message = ''Failed to enable webservice: '' @ Error_msg err\<rparr>, w')
           | (None, w') \<Rightarrow>
               (\<lparr>result = ''SUCCESS'', message = ''Webservice '' @ name @ '' enabled''\<rparr>, w'))"

definition handleDisableWebService :: "env \<Rightarrow> world \<Rightarrow> any list \<Rightarrow> reply \<times> world" where
  "handleDisableWebService e w Arguments =
     (if length Arguments < 1
      then (\<lparr>result = ''ERROR'', message = ''Missing argument: name required''\<rparr>, w)
      else
        let name = fst (assert_string (Arguments ! 0))
        in case disableWebService e w name of
             (Some err, w') \<Rightarrow>
               (\<lparr>result = ''ERROR'',
                 message = ''Failed to disable webservice: '' @ Error_msg err\<rparr>, w')
           | (None, w') \<Rightarrow>
               (\<lparr>result = ''SUCCESS'', message = ''Webservice '' @ name @ '' disabled''\<rparr>, w'))"

subsection \<open>Board identity and endpoint selection (package board)\<close>

text \<open>\<open>os.ReadFile\<close>: a missing file is an error, and a file that exists may be unreadable.\<close>

definition os_ReadFile :: "env \<Rightarrow> world \<Rightarrow> path \<Rightarrow> error + contents" where
  "os_ReadFile e w p =
     (case disk w p of
        None \<Rightarrow> Inl (Errorf (''open '' @ p @ '': no such file or directory''))
      | Some f \<Rightarrow>
          (case ReadFile_err e p of
             Some m \<Rightarrow> Inl (Errorf m)
           | None \<Rightarrow> Inr f))"

definition zero_BoardSettings :: BoardSettings where
  "zero_BoardSettings =
     \<lparr>Iotronic =
        \<lparr>iot_Board =
           \<lparr>cfg_UUID = '''', cfg_Code = '''', cfg_Name = '''', cfg_Status = '''',
            cfg_Type = '''', cfg_Mobile = False, cfg_Agent = '''', cfg_CreatedAt = '''',
            cfg_UpdatedAt = '''', cfg_Location = [], cfg_Extra = []\<rparr>,
         iot_WAMP = \<lparr>MainAgent = None, RegistrationAgent = None\<rparr>,
         iot_Extra = []\<rparr>\<rparr>"

text \<open>
  \<open>json.Unmarshal\<close> into a \<open>BoardSettings\<close>: bytes that are no JSON are an error, and
  a JSON object without the key \<open>iotronic\<close> leaves the zero value.
\<close>

fun Unmarshal_BoardSettings :: "contents \<Rightarrow> error + BoardSettings" where
  "Unmarshal_BoardSettings (SettingsDoc s) = Inr s"
| "Unmarshal_BoardSettings (ServicesDoc m) = Inr zero_BoardSettings"
| "Unmarshal_BoardSettings (Raw t) =
     Inl (Errorf ''invalid character looking for beginning of value'')"

definition settingsPath :: "env \<Rightarrow> string \<Rightarrow> path" where
  "settingsPath e home =
     (if home = [] then DefaultSettingsFile else filepath_Join e home ''settings.json'')"

definition LoadBoardSettings :: "env \<Rightarrow> world \<Rightarrow> string \<Rightarrow> error + BoardSettings" where
  "LoadBoardSettings e w home =
     (case os_ReadFile e w (settingsPath e home) of
        Inl err \<Rightarrow> Inl (Errorf (''failed to read settings file: '' @ Error_msg err))
      | Inr data \<Rightarrow>
          (case Unmarshal_BoardSettings data of
             Inl err \<Rightarrow> Inl (Errorf (''failed to parse settings file: '' @ Error_msg err))
           | Inr s \<Rightarrow> Inr s))"

definition SaveBoardSettings ::
  "env \<Rightarrow> world \<Rightarrow> string \<Rightarrow> BoardSettings \<Rightarrow> error option \<times> world" where
  "SaveBoardSettings e w home s =
     (case os_WriteFile e w (settingsPath e home) (SettingsDoc s) of
        (Some err, w') \<Rightarrow>
          (Some (Errorf (''failed to write settings file: '' @ Error_msg err)), w')
      | (None, w') \<Rightarrow> (None, w'))"

text \<open>
  \<open>loadWampConfig\<close> returns nothing. In the second branch it stores the registration
  agent and then logs \<open>b.WampConfig.URL\<close>, which panics when there is no such agent.
\<close>

definition loadWampConfig :: "Board \<Rightarrow> BoardSettings \<Rightarrow> error option \<times> Board" where
  "loadWampConfig b s =
     (if MainAgent (iot_WAMP (Iotronic s)) \<noteq> None
      then (None, b\<lparr>WampConfig := MainAgent (iot_WAMP (Iotronic s))\<rparr>)
      else if b_Status b = '''' \<or> b_Status b = ''registered'' \<or> b_Status b = ''first_boot''
      then
        let b1 = b\<lparr>WampConfig := RegistrationAgent (iot_WAMP (Iotronic s))\<rparr>
        in (if WampConfig b1 = None then (Some Panic, b1) else (None, b1))
      else (None, b\<lparr>b_Status := ''first_boot''\<rparr>))"

definition LoadSettings :: "env \<Rightarrow> world \<Rightarrow> error option \<times> world" where
  "LoadSettings e w =
     (case LoadBoardSettings e w (Home (cfg w)) of
        Inl err \<Rightarrow> (Some err, w)
      | Inr s \<Rightarrow>
          let boardCfg = iot_Board (Iotronic s);
              b1 = (board w)\<lparr>settings := Some s,
                     UUID := cfg_UUID boardCfg, Code := cfg_Code boardCfg,
                     b_Name := cfg_Name boardCfg, b_Status := cfg_Status boardCfg,
                     b_Type := cfg_Type boardCfg, Mobile := cfg_Mobile boardCfg,
                     Agent := cfg_Agent boardCfg, CreatedAt := cfg_CreatedAt boardCfg,
                     UpdatedAt := cfg_UpdatedAt boardCfg, Location := cfg_Location boardCfg,
                     Extra := cfg_Extra boardCfg\<rparr>
          in case loadWampConfig b1 s of
               (Some err, b2) \<Rightarrow> (Some err, w\<lparr>board := b2\<rparr>)
             | (None, b2) \<Rightarrow>
                 let b3 = (if Code b2 = ''<REGISTRATION-TOKEN>''
                           then b2\<lparr>b_Status := ''first_boot''\<rparr> else b2)
                 in (None, w\<lparr>board := b3\<rparr>))"

definition set_Status :: "BoardSettings \<Rightarrow> string \<Rightarrow> BoardSettings" where
  "set_Status s status =
     s\<lparr>Iotronic := (Iotronic s)\<lparr>iot_Board := (iot_Board (Iotronic s))\<lparr>cfg_Status := status\<rparr>\<rparr>\<rparr>"

definition set_UpdatedAt :: "BoardSettings \<Rightarrow> string \<Rightarrow> BoardSettings" where
  "set_UpdatedAt s t =
     s\<lparr>Iotronic := (Iotronic s)\<lparr>iot_Board := (iot_Board (Iotronic s))\<lparr>cfg_UpdatedAt := t\<rparr>\<rparr>\<rparr>"

text \<open>
  \<open>UpdateStatus\<close> and \<open>SetUpdateTime\<close> assign the field of the board, then the field of
  \<open>b.settings\<close> (a nil pointer before the first successful load), then save.
\<close>

definition UpdateStatus :: "env \<Rightarrow> world \<Rightarrow> string \<Rightarrow> error option \<times> world" where
  "UpdateStatus e w status =
     (let w1 = w\<lparr>board := (board w)\<lparr>b_Status := status\<rparr>\<rparr>
      in case settings (board w1) of
           None \<Rightarrow> (Some Panic, w1)
         | Some s \<Rightarrow>
             let s' = set_Status s status;
                 w2 = w1\<lparr>board := (board w1)\<lparr>settings := Some s'\<rparr>\<rparr>
             in SaveBoardSettings e w2 (Home (cfg w2)) s')"

definition SetUpdateTime :: "env \<Rightarrow> world \<Rightarrow> error option \<times> world" where
  "SetUpdateTime e w =
     (let timestamp = Now e;
          w1 = w\<lparr>board := (board w)\<lparr>UpdatedAt := timestamp\<rparr>\<rparr>
      in case settings (board w1) of
           None \<Rightarrow> (Some Panic, w1)
         | Some s \<Rightarrow>
             let s' = set_UpdatedAt s timestamp;
                 w2 = w1\<lparr>board := (board w1)\<lparr>settings := Some s'\<rparr>\<rparr>
             in SaveBoardSettings e w2 (Home (cfg w2)) s')"

definition SetConfig :: "env \<Rightarrow> world \<Rightarrow> BoardSettings \<Rightarrow> error option \<times> world" where
  "SetConfig e w newSettings =
     (case SaveBoardSettings e w (Home (cfg w)) newSettings of
        (Some err, w1) \<Rightarrow> (Some err, w1)
      | (None, w1) \<Rightarrow> LoadSettings e w1)"

definition GetWampURL :: "Board \<Rightarrow> string" where
  "GetWampURL b = (case WampConfig b of Some a \<Rightarrow> URL a | None \<Rightarrow> '''')"

definition GetWampRealm :: "Board \<Rightarrow> string" where
  "GetWampRealm b = (case WampConfig b of Some a \<Rightarrow> Realm a | None \<Rightarrow> '''')"

subsection \<open>Session manager (package wamp)\<close>

definition Connect :: "env \<Rightarrow> world \<Rightarrow> error option \<times> world" where
  "Connect e w =
     (if connected (wamp w) then (None, w)
      else
        let wampURL = GetWampURL (board w);
            realm = GetWampRealm (board w)
        in if wampURL = '''' \<or> realm = ''''
           then (Some (Errorf ''WAMP configuration not available''), w)
           else
             case ConnectNet e wampURL realm of
               Inl m \<Rightarrow> (Some (Errorf (''failed to connect to WAMP router: '' @ m)), w)
             | Inr cl \<Rightarrow>
                 (None, w\<lparr>wamp := \<lparr>client = Some cl, connected = True, sessionID = cl\<rparr>,
                           board := (board w)\<lparr>SessionID := decimal (unat cl)\<rparr>\<rparr>))"

text \<open>An error of closing the transport is only logged: \<open>Disconnect\<close> always returns nil.\<close>

definition Disconnect :: "world \<Rightarrow> error option \<times> world" where
  "Disconnect w =
     (if \<not> connected (wamp w) then (None, w)
      else (None, w\<lparr>wamp := (wamp w)\<lparr>client := None, connected := False\<rparr>\<rparr>))"

definition Register :: "env \<Rightarrow> world \<Rightarrow> string \<Rightarrow> error option \<times> world" where
  "Register e w procedure =
     (if \<not> connected (wamp w) \<or> client (wamp w) = None
      then (Some (Errorf ''not connected to WAMP router''), w)
      else
        case Register_err e procedure of
          Some m \<Rightarrow>
            (Some (Errorf (''failed to register procedure '' @ procedure @ '': '' @ m)), w)
        | None \<Rightarrow> (None, w\<lparr>registered := registered w @ [procedure]\<rparr>))"

definition IsConnected :: "world \<Rightarrow> bool" where
  "IsConnected w = connected (wamp w)"

text \<open>\<open>Reconnect\<close>: disconnect, sleep for the connection timer, connect.\<close>

definition Reconnect :: "env \<Rightarrow> world \<Rightarrow> error option \<times> world" where
  "Reconnect e w =
     (let w1 = snd (Disconnect w)
      in case Connect e w1 of
           (Some err, w2) \<Rightarrow> (Some (Errorf (''reconnection failed: '' @ Error_msg err)), w2)
         | (None, w2) \<Rightarrow> (None, w2))"

text \<open>
  \<open>KeepAlive\<close> loops over what its \<open>select\<close> receives: the cancellation of the context
  ends it; at a tick of the timer it reconnects when the session is not connected, and
  logs a failure. The loop is run here on a finite sequence of such events, each tick
  with the answers of the outside world at that time.
\<close>

datatype event = Done | Tick env

fun KeepAlive :: "world \<Rightarrow> event list \<Rightarrow> world" where
  "KeepAlive w [] = w"
| "KeepAlive w (Done # evs) = w"
| "KeepAlive w (Tick e # evs) =
     KeepAlive (if \<not> IsConnected w then snd (Reconnect e w) else w) evs"

subsection \<open>Capability registration\<close>

definition procedure_name :: "Board \<Rightarrow> string \<Rightarrow> string" where
  "procedure_name b verb = ''iotronic.'' @ SessionID b @ ''.'' @ UUID b @ ''.'' @ verb"

text \<open>
  The loop of \<open>registerRPCs\<close> over the procedures, stopping at the first failure. Go
  ranges over the map of procedures in no fixed order; here they are registered in the
  order of the list.
\<close>

fun register_all :: "env \<Rightarrow> world \<Rightarrow> string list \<Rightarrow> error option \<times> world" where
  "register_all e w [] = (None, w)"
| "register_all e w (proc # rest) =
     (case Register e w proc of
        (Some err, w') \<Rightarrow>
          (Some (Errorf (''failed to register '' @ proc @ '': '' @ Error_msg err)), w')
      | (None, w') \<Rightarrow> register_all e w' rest)"

definition service_verbs :: "string list" where
  "service_verbs = [''ExposeService'', ''UnexposeService'', ''ServicesList'']"

definition webservice_verbs :: "string list" where
  "webservice_verbs =
     [''EnableWebService'', ''DisableWebService'', ''WebServicesList'', ''ProxyInfo'']"

definition device_verbs :: "string list" where
  "device_verbs = [''DevicePing'', ''DeviceInfo'', ''DeviceStatus'']"

definition registerRPCs :: "string list \<Rightarrow> env \<Rightarrow> world \<Rightarrow> error option \<times> world" where
  "registerRPCs verbs e w = register_all e w (map (procedure_name (board w)) verbs)"

subsection \<open>Concrete environments and states\<close>

text \<open>An outside world in which every call succeeds, and others in which some fail.\<close>

definition env_ok :: env where
  "env_ok =
     \<lparr>WriteFile_err = (\<lambda>p. None), ReadFile_err = (\<lambda>p. None),
      Remove_err = (\<lambda>p. None),
      nginx_t = None, nginx_reload = None,
      cmd_Start = (\<lambda>argv. Inr 4242),
      ConnectNet = (\<lambda>url realm. Inr 1),
      Register_err = (\<lambda>p. None),
      Now = ''2024-05-01T12:00:00.000000'',
      Clean = (\<lambda>p. p)\<rparr>"

definition env_nginx_t_fails :: env where
  "env_nginx_t_fails = env_ok\<lparr>nginx_t := Some ''nginx: configuration file test failed''\<rparr>"

definition env_stuck :: env where
  "env_stuck = env_nginx_t_fails\<lparr>Remove_err := (\<lambda>p. Some ''permission denied'')\<rparr>"

definition env_services_ro :: env where
  "env_services_ro =
     env_ok\<lparr>WriteFile_err := (\<lambda>p. if p = ''/var/lib/iotronic/services.json''
                                  then Some ''permission denied'' else None)\<rparr>"

definition env_settings_ro :: env where
  "env_settings_ro =
     env_ok\<lparr>WriteFile_err := (\<lambda>p. if p = ''/var/lib/iotronic/settings.json''
                                  then Some ''permission denied'' else None)\<rparr>"

definition env_no_wstun :: env where
  "env_no_wstun = env_ok\<lparr>cmd_Start := (\<lambda>argv. Inl ''executable file not found'')\<rparr>"

definition env_read_only :: env where
  "env_read_only = env_ok\<lparr>WriteFile_err := (\<lambda>p. Some ''read-only file system'')\<rparr>"

definition env_session2 :: env where
  "env_session2 = env_ok\<lparr>ConnectNet := (\<lambda>url realm. Inr 2)\<rparr>"

definition agent0 :: WampAgent where
  "agent0 = \<lparr>URL = ''wss://iotronic.example:8181/'', Realm = ''s4t''\<rparr>"

text \<open>Settings of a board with the given status and no main agent.\<close>

definition settings0 :: "string \<Rightarrow> BoardSettings" where
  "settings0 status =
     \<lparr>Iotronic =
        \<lparr>iot_Board =
           \<lparr>cfg_UUID = ''b-01'', cfg_Code = ''code-01'', cfg_Name = ''board'',
            cfg_Status = status, cfg_Type = ''generic'', cfg_Mobile = False,
            cfg_Agent = ''agent'', cfg_CreatedAt = '''', cfg_UpdatedAt = '''',
            cfg_Location = [], cfg_Extra = []\<rparr>,
         iot_WAMP = \<lparr>MainAgent = None, RegistrationAgent = Some agent0\<rparr>,
         iot_Extra = []\<rparr>\<rparr>"

definition cfg0 :: Config where
  "cfg0 = \<lparr>Home = ''/var/lib/iotronic'', SkipCertVerify = True,
           WstunBin = ''/usr/bin/wstun'', Proxy = ''nginx''\<rparr>"

text \<open>
  The state in which \<open>board.New\<close> calls \<open>LoadSettings\<close>: a board of zero values, no
  session, empty registries, and a disk that holds only \<open>settings.json\<close>.
\<close>

definition world_new :: "BoardSettings \<Rightarrow> world" where
  "world_new s =
     \<lparr>disk = [''/var/lib/iotronic/settings.json'' \<mapsto> SettingsDoc s],
      procs = {},
      cfg = cfg0,
      board = \<lparr>UUID = '''', Code = '''', b_Name = '''', b_Status = '''', b_Type = '''',
               Mobile = False, Agent = '''', CreatedAt = '''', UpdatedAt = '''',
               Location = [], Extra = [], SessionID = '''', WampConfig = None,
               settings = None\<rparr>,
      wamp = \<lparr>client = None, connected = False, sessionID = 0\<rparr>,
      registered = [],
      wstunURL = ''wss://iotronic.example:8080'',
      services = Map.empty,
      webservices = Map.empty\<rparr>"

text \<open>A registered board after its settings are loaded, with an empty disk otherwise.\<close>

definition world0 :: world where
  "world0 = snd (LoadSettings env_ok (world_new (settings0 ''registered'')))"

text \<open>
  The same after \<open>EnableWebService("api", 3000, 9000)\<close>, and after the artifact of
  \<open>api\<close> has then been deleted from the disk by hand.
\<close>

definition world_api :: world where
  "world_api = snd (enableWebService env_ok world0 ''api'' 3000 9000)"

definition world_api_lost :: world where
  "world_api_lost = world_api\<lparr>disk := disk world0\<rparr>"

text \<open>After \<open>ExposeService("db", 5432)\<close>.\<close>

definition world_db :: world where
  "world_db = snd (exposeService env_ok world0 ''db'' 5432)"

text \<open>
  After start-up: connected with session 1, and the device, service and webservice
  managers have registered their procedures.
\<close>

definition world_started :: world where
  "world_started =
     snd (registerRPCs webservice_verbs env_ok
       (snd (registerRPCs service_verbs env_ok
         (snd (registerRPCs device_verbs env_ok
           (snd (Connect env_ok world0)))))))"

text \<open>
  Settings with a main agent, and settings of a board that still carries the
  registration token as its code.
\<close>

definition agent1 :: WampAgent where
  "agent1 = \<lparr>URL = ''wss://wagent.example:8181/'', Realm = ''s4t''\<rparr>"

definition settings_main :: "string \<Rightarrow> BoardSettings" where
  "settings_main status =
     (settings0 status)\<lparr>Iotronic := (Iotronic (settings0 status))
        \<lparr>iot_WAMP := \<lparr>MainAgent = Some agent1, RegistrationAgent = Some agent0\<rparr>\<rparr>\<rparr>"

definition settings_token :: BoardSettings where
  "settings_token =
     (settings0 ''registered'')\<lparr>Iotronic := (Iotronic (settings0 ''registered''))
        \<lparr>iot_Board := (iot_Board (Iotronic (settings0 ''registered'')))
           \<lparr>cfg_Code := ''<REGISTRATION-TOKEN>''\<rparr>\<rparr>\<rparr>"

section \<open>Properties\<close>

subsection \<open>Evaluation of the concrete states\<close>

lemma world0_fields:
  "disk world0 = [''/var/lib/iotronic/settings.json'' \<mapsto> SettingsDoc (settings0 ''registered'')]"
  "services world0 = Map.empty"
  "webservices world0 = Map.empty"
  "cfg world0 = cfg0"
  "procs world0 = {}"
  "registered world0 = []"
  "wstunURL world0 = ''wss://iotronic.example:8080''"
  "wamp world0 = \<lparr>client = None, connected = False, sessionID = 0\<rparr>"
  "UUID (board world0) = ''b-01''"
  "SessionID (board world0) = ''''"
  "WampConfig (board world0) = Some agent0"
  "b_Status (board world0) = ''registered''"
  "settings (board world0) = Some (settings0 ''registered'')"
  by (simp_all add: world0_def LoadSettings_def LoadBoardSettings_def os_ReadFile_def
      world_new_def cfg0_def settingsPath_def filepath_Join_def env_ok_def settings0_def
      loadWampConfig_def agent0_def Let_def)

lemma confPath_plain:
  "Clean e = (\<lambda>p. p) \<Longrightarrow> confPath e name = ''/etc/nginx/conf.d/lr_'' @ name @ ''.conf''"
  by (simp add: confPath_def filepath_Join_def nginxConfDir_def)

lemma services_json_plain:
  "Clean e = (\<lambda>p. p) \<Longrightarrow>
     filepath_Join e (Home cfg0) ''services.json'' = ''/var/lib/iotronic/services.json''"
  by (simp add: filepath_Join_def cfg0_def)

lemma settings_json_plain:
  "Clean e = (\<lambda>p. p) \<Longrightarrow> settingsPath e (Home cfg0) = ''/var/lib/iotronic/settings.json''"
  by (simp add: settingsPath_def filepath_Join_def cfg0_def)

lemma os_Remove_ok:
  "Remove_err e p = None \<Longrightarrow> snd (os_Remove e v p) = v\<lparr>disk := (disk v)(p := None)\<rparr>"
  by (cases "disk v p") (simp_all add: os_Remove_def fun_upd_idem)

lemma os_Remove_fails:
  "Remove_err e p \<noteq> None \<Longrightarrow> snd (os_Remove e v p) = v"
  by (auto simp add: os_Remove_def)

lemma os_Remove_other:
  "q \<noteq> p \<Longrightarrow> disk (snd (os_Remove e v p)) q = disk v q"
  by (simp add: os_Remove_def split: option.splits)

lemma os_Remove_webservices [simp]:
  "webservices (snd (os_Remove e v p)) = webservices v"
  by (simp add: os_Remove_def split: option.splits)

subsection \<open>Atomic enable\<close>

text \<open>
  C1, as the code has it. When the proxy check fails and the removal of the artifact
  fails too, \<open>EnableWebService\<close> returns the error of the check and the artifact it wrote
  is still on the disk.
\<close>

theorem enableWebService_rollback_counterexample:
  "webservices world0 ''api'' = None
   \<and> nginx_t env_stuck = Some ''nginx: configuration file test failed''
   \<and> Remove_err env_stuck ''/etc/nginx/conf.d/lr_api.conf'' = Some ''permission denied''
   \<and> enableWebService env_stuck world0 ''api'' 3000 9000
       = (Some (Errorf (''failed to reload nginx: nginx config test failed: ''
                        @ ''nginx: configuration file test failed'')),
          world0\<lparr>disk := (disk world0)(''/etc/nginx/conf.d/lr_api.conf''
                             \<mapsto> Raw (nginxConf 9000 3000))\<rparr>)
   \<and> disk (snd (enableWebService env_stuck world0 ''api'' 3000 9000))
        ''/etc/nginx/conf.d/lr_api.conf'' = Some (Raw (nginxConf 9000 3000))"
  by (simp add: enableWebService_def os_WriteFile_def os_Remove_def reloadNginx_def
      world0_fields confPath_plain env_stuck_def env_nginx_t_fails_def env_ok_def)

text \<open>
  C1, amended. When \<open>EnableWebService\<close> gets as far as the proxy check (the name is not
  in the registry and the artifact was written) and \<open>nginx -t\<close> or \<open>nginx -s reload\<close>
  fails, it returns an error, the registry is as before and has no entry for the name,
  and the handler replies \<open>ERROR\<close>. The artifact is then removed, the result of the
  removal being discarded: when the removal succeeds the artifact of that name is not on
  the disk afterwards and nothing else has changed; when the removal fails the artifact
  stays on the disk as written.
\<close>

theorem enableWebService_rollback:
  assumes "webservices w name = None"
    and "WriteFile_err e (confPath e name) = None"
    and "nginx_t e \<noteq> None \<or> nginx_reload e \<noteq> None"
  shows "fst (enableWebService e w name localPort publicPort) \<noteq> None
       \<and> webservices (snd (enableWebService e w name localPort publicPort)) = webservices w
       \<and> webservices (snd (enableWebService e w name localPort publicPort)) name = None
       \<and> (Remove_err e (confPath e name) = None
            \<longrightarrow> disk (snd (enableWebService e w name localPort publicPort)) (confPath e name)
                = None
              \<and> snd (enableWebService e w name localPort publicPort)
                = w\<lparr>disk := (disk w)(confPath e name := None)\<rparr>)
       \<and> (Remove_err e (confPath e name) \<noteq> None
            \<longrightarrow> snd (enableWebService e w name localPort publicPort)
                = w\<lparr>disk := (disk w)(confPath e name
                                    \<mapsto> Raw (nginxConf publicPort localPort))\<rparr>)
       \<and> result (fst (handleEnableWebService e w [AStr name, ANum lp, ANum pp])) = ''ERROR''"
proof -
  from assms(3) have "reloadNginx e \<noteq> None"
    by (auto simp add: reloadNginx_def split: option.splits)
  then obtain err where r: "reloadNginx e = Some err"
    by blast
  have en: "enableWebService e w name a b
      = (Some (Errorf (''failed to reload nginx: '' @ Error_msg err)),
         snd (os_Remove e (w\<lparr>disk := (disk w)(confPath e name \<mapsto> Raw (nginxConf b a))\<rparr>)
                (confPath e name)))" for a b
    using assms(1,2) by (simp add: enableWebService_def os_WriteFile_def r)
  have ok: "snd (enableWebService e w name a b) = w\<lparr>disk := (disk w)(confPath e name := None)\<rparr>"
    if "Remove_err e (confPath e name) = None" for a b
    using that by (simp add: en os_Remove_ok)
  have stuck: "snd (enableWebService e w name a b)
      = w\<lparr>disk := (disk w)(confPath e name \<mapsto> Raw (nginxConf b a))\<rparr>"
    if "Remove_err e (confPath e name) \<noteq> None" for a b
    using that by (simp add: en os_Remove_fails)
  have hd: "result (fst (handleEnableWebService e w [AStr name, ANum lp, ANum pp])) = ''ERROR''"
    by (simp add: handleEnableWebService_def en)
  have ws: "webservices (snd (enableWebService e w name a b)) = webservices w" for a b
    by (simp add: en)
  show ?thesis
    using assms(1) ok stuck hd by (simp add: ws en)
qed

theorem enableWebService_rollback_witness:
  "webservices world0 ''api'' = None
   \<and> WriteFile_err env_nginx_t_fails (confPath env_nginx_t_fails ''api'') = None
   \<and> nginx_t env_nginx_t_fails = Some ''nginx: configuration file test failed''
   \<and> Remove_err env_nginx_t_fails (confPath env_nginx_t_fails ''api'') = None
   \<and> confPath env_nginx_t_fails ''api'' = ''/etc/nginx/conf.d/lr_api.conf''
   \<and> fst (enableWebService env_nginx_t_fails world0 ''api'' 3000 9000) \<noteq> None
   \<and> disk (snd (enableWebService env_nginx_t_fails world0 ''api'' 3000 9000))
        (confPath env_nginx_t_fails ''api'') = None
   \<and> webservices (snd (enableWebService env_nginx_t_fails world0 ''api'' 3000 9000)) ''api''
        = None
   \<and> WriteFile_err env_stuck (confPath env_stuck ''api'') = None
   \<and> nginx_t env_stuck = Some ''nginx: configuration file test failed''
   \<and> Remove_err env_stuck (confPath env_stuck ''api'') = Some ''permission denied''
   \<and> fst (enableWebService env_stuck world0 ''api'' 3000 9000) \<noteq> None
   \<and> webservices (snd (enableWebService env_stuck world0 ''api'' 3000 9000)) ''api'' = None
   \<and> snd (enableWebService env_stuck world0 ''api'' 3000 9000)
       = world0\<lparr>disk := (disk world0)(confPath env_stuck ''api''
                             \<mapsto> Raw (nginxConf 9000 3000))\<rparr>"
proof -
  have h1: "webservices world0 ''api'' = None"
    by (simp add: world0_fields)
  have h2: "WriteFile_err env_nginx_t_fails (confPath env_nginx_t_fails ''api'') = None"
    by (simp add: env_nginx_t_fails_def env_ok_def)
  have h3: "nginx_t env_nginx_t_fails \<noteq> None \<or> nginx_reload env_nginx_t_fails \<noteq> None"
    by (simp add: env_nginx_t_fails_def)
  have h4: "Remove_err env_nginx_t_fails (confPath env_nginx_t_fails ''api'') = None"
    by (simp add: env_nginx_t_fails_def env_ok_def)
  have t: "nginx_t env_nginx_t_fails = Some ''nginx: configuration file test failed''"
    by (simp add: env_nginx_t_fails_def)
  have p: "confPath env_nginx_t_fails ''api'' = ''/etc/nginx/conf.d/lr_api.conf''"
    by (simp add: confPath_plain env_nginx_t_fails_def env_ok_def)
  have k2: "WriteFile_err env_stuck (confPath env_stuck ''api'') = None"
    by (simp add: env_stuck_def env_nginx_t_fails_def env_ok_def)
  have k3: "nginx_t env_stuck \<noteq> None \<or> nginx_reload env_stuck \<noteq> None"
    by (simp add: env_stuck_def env_nginx_t_fails_def)
  have k4: "Remove_err env_stuck (confPath env_stuck ''api'') = Some ''permission denied''"
    by (simp add: env_stuck_def)
  have kt: "nginx_t env_stuck = Some ''nginx: configuration file test failed''"
    by (simp add: env_stuck_def env_nginx_t_fails_def)
  from enableWebService_rollback [OF h1 h2 h3, of 3000 9000]
    enableWebService_rollback [OF h1 k2 k3, of 3000 9000]
  show ?thesis using h1 h2 h4 t p k2 k4 kt by simp
qed

subsection \<open>Unexposing an absent service\<close>

text \<open>
  C4. For a name that the service registry does not hold, \<open>UnexposeService\<close> fails with
  the not-found error, and the whole state is as before the call: the \<open>services\<close> map
  and every file on the disk, the persisted \<open>services.json\<close> among them. The handler
  reports the failure as an \<open>ERROR\<close> reply.
\<close>

theorem unexposeService_absent:
  assumes "services w n = None"
  shows "unexposeService e w n = (Some (Errorf (''service '' @ n @ '' not found'')), w)
       \<and> handleUnexposeService e w [AStr n]
           = (\<lparr>result = ''ERROR'',
               message = ''Failed to unexpose service: service '' @ n @ '' not found''\<rparr>, w)"
  using assms by (simp add: unexposeService_def stopService_def handleUnexposeService_def)

theorem unexposeService_absent_witness:
  "services world0 ''web'' = None
   \<and> unexposeService env_ok world0 ''web'' = (Some (Errorf ''service web not found''), world0)
   \<and> handleUnexposeService env_ok world0 [AStr ''web'']
       = (\<lparr>result = ''ERROR'',
           message = ''Failed to unexpose service: service web not found''\<rparr>, world0)"
proof -
  have h: "services world0 ''web'' = None"
    by (simp add: world0_fields)
  from unexposeService_absent [OF h, of env_ok] show ?thesis using h by simp
qed

subsection \<open>Disabling a webservice\<close>

text \<open>
  C9, as the code has it. \<open>DisableWebService\<close> of a name that is not in the registry
  fails with the not-found error, also when no artifact of that name is on the disk.
\<close>

theorem disableWebService_absent_counterexample:
  "webservices world0 ''api'' = None
   \<and> disk world0 (confPath env_ok ''api'') = None
   \<and> disableWebService env_ok world0 ''api''
       = (Some (Errorf ''webservice api not found''), world0)
   \<and> handleDisableWebService env_ok world0 [AStr ''api'']
       = (\<lparr>result = ''ERROR'',
           message = ''Failed to disable webservice: webservice api not found''\<rparr>, world0)"
  by (simp add: world0_fields confPath_plain env_ok_def disableWebService_def
      removeWebService_def handleDisableWebService_def)

text \<open>
  C9, amended. For a name that is in the registry, \<open>DisableWebService\<close> returns no
  error, whether the artifact is on the disk or not, whether its removal fails or not,
  and whether \<open>nginx -t\<close> and the reload succeed or not; afterwards the registry has no
  entry for the name, and the artifact is not on the disk unless its removal failed, in
  which case the disk is as before. For a name that is not in the registry it fails with
  the not-found error and changes nothing.
\<close>

theorem disableWebService_outcome:
  "(webservices w name \<noteq> None
      \<longrightarrow> fst (disableWebService e w name) = None
        \<and> webservices (snd (disableWebService e w name)) = (webservices w)(name := None)
        \<and> (Remove_err e (confPath e name) = None
             \<longrightarrow> snd (disableWebService e w name)
                 = w\<lparr>disk := (disk w)(confPath e name := None),
                      webservices := (webservices w)(name := None)\<rparr>)
        \<and> (Remove_err e (confPath e name) \<noteq> None
             \<longrightarrow> snd (disableWebService e w name)
                 = w\<lparr>webservices := (webservices w)(name := None)\<rparr>)
        \<and> result (fst (handleDisableWebService e w [AStr name])) = ''SUCCESS'')
   \<and> (webservices w name = None
      \<longrightarrow> disableWebService e w name
          = (Some (Errorf (''webservice '' @ name @ '' not found'')), w)
        \<and> handleDisableWebService e w [AStr name]
          = (\<lparr>result = ''ERROR'',
              message = ''Failed to disable webservice: webservice '' @ name
                        @ '' not found''\<rparr>, w))"
proof -
  have present: "fst (disableWebService e w name) = None
        \<and> webservices (snd (disableWebService e w name)) = (webservices w)(name := None)
        \<and> result (fst (handleDisableWebService e w [AStr name])) = ''SUCCESS''"
    if "webservices w name \<noteq> None"
    using that
    by (auto simp add: disableWebService_def removeWebService_def handleDisableWebService_def
        Let_def)
  have ok: "snd (disableWebService e w name)
                 = w\<lparr>disk := (disk w)(confPath e name := None),
                      webservices := (webservices w)(name := None)\<rparr>"
    if "webservices w name \<noteq> None" "Remove_err e (confPath e name) = None"
    using that
    by (auto simp add: disableWebService_def removeWebService_def os_Remove_ok Let_def)
  have stuck: "snd (disableWebService e w name)
                 = w\<lparr>webservices := (webservices w)(name := None)\<rparr>"
    if "webservices w name \<noteq> None" "Remove_err e (confPath e name) \<noteq> None"
    using that
    by (auto simp add: disableWebService_def removeWebService_def os_Remove_fails Let_def)
  have absent: "disableWebService e w name
          = (Some (Errorf (''webservice '' @ name @ '' not found'')), w)
        \<and> handleDisableWebService e w [AStr name]
          = (\<lparr>result = ''ERROR'',
              message = ''Failed to disable webservice: webservice '' @ name
                        @ '' not found''\<rparr>, w)"
    if "webservices w name = None"
    using that
    by (simp add: disableWebService_def removeWebService_def handleDisableWebService_def)
  from present ok stuck absent show ?thesis by blast
qed

lemma world_api_eq:
  "world_api = world0
     \<lparr>disk := (disk world0)(''/etc/nginx/conf.d/lr_api.conf'' \<mapsto> Raw (nginxConf 9000 3000)),
      webservices := [''api'' \<mapsto>
        \<lparr>ws_Name = ''api'', ws_LocalPort = 3000, ws_PublicPort = 9000, ws_Domain = '''',
         ws_Status = ''enabled''\<rparr>]\<rparr>"
  by (simp add: world_api_def enableWebService_def os_WriteFile_def reloadNginx_def
      world0_fields confPath_plain env_ok_def)

theorem disableWebService_outcome_witness:
  "webservices world_api_lost ''api'' \<noteq> None
   \<and> disk world_api_lost (confPath env_nginx_t_fails ''api'') = None
   \<and> nginx_t env_nginx_t_fails = Some ''nginx: configuration file test failed''
   \<and> Remove_err env_nginx_t_fails (confPath env_nginx_t_fails ''api'') = None
   \<and> fst (disableWebService env_nginx_t_fails world_api_lost ''api'') = None
   \<and> webservices (snd (disableWebService env_nginx_t_fails world_api_lost ''api'')) ''api''
        = None
   \<and> disk (snd (disableWebService env_nginx_t_fails world_api_lost ''api''))
        (confPath env_nginx_t_fails ''api'') = None
   \<and> webservices world_api ''api'' \<noteq> None
   \<and> Remove_err env_stuck (confPath env_stuck ''api'') = Some ''permission denied''
   \<and> fst (disableWebService env_stuck world_api ''api'') = None
   \<and> webservices (snd (disableWebService env_stuck world_api ''api'')) ''api'' = None
   \<and> disk (snd (disableWebService env_stuck world_api ''api'')) = disk world_api
   \<and> webservices world0 ''db'' = None
   \<and> disableWebService env_ok world0 ''db''
       = (Some (Errorf ''webservice db not found''), world0)"
proof -
  have h: "webservices world_api_lost ''api'' \<noteq> None"
    by (simp add: world_api_lost_def world_api_eq)
  have d: "disk world_api_lost (confPath env_nginx_t_fails ''api'') = None"
    by (simp add: world_api_lost_def world0_fields confPath_plain env_nginx_t_fails_def
        env_ok_def)
  have t: "nginx_t env_nginx_t_fails = Some ''nginx: configuration file test failed''"
    by (simp add: env_nginx_t_fails_def)
  have r: "Remove_err env_nginx_t_fails (confPath env_nginx_t_fails ''api'') = None"
    by (simp add: env_nginx_t_fails_def env_ok_def)
  have h': "webservices world_api ''api'' \<noteq> None"
    by (simp add: world_api_eq)
  have r': "Remove_err env_stuck (confPath env_stuck ''api'') = Some ''permission denied''"
    by (simp add: env_stuck_def)
  have a: "webservices world0 ''db'' = None"
    by (simp add: world0_fields)
  from disableWebService_outcome [of world_api_lost "''api''" env_nginx_t_fails] h r
  have c1: "fst (disableWebService env_nginx_t_fails world_api_lost ''api'') = None
     \<and> snd (disableWebService env_nginx_t_fails world_api_lost ''api'')
         = world_api_lost\<lparr>disk := (disk world_api_lost)(confPath env_nginx_t_fails ''api'' := None),
              webservices := (webservices world_api_lost)(''api'' := None)\<rparr>"
    by blast
  from disableWebService_outcome [of world_api "''api''" env_stuck] h' r'
  have c2: "fst (disableWebService env_stuck world_api ''api'') = None
     \<and> snd (disableWebService env_stuck world_api ''api'')
         = world_api\<lparr>webservices := (webservices world_api)(''api'' := None)\<rparr>"
    by auto
  from disableWebService_outcome [of world0 "''db''" env_ok] a
  have c3: "disableWebService env_ok world0 ''db''
       = (Some (Errorf ''webservice db not found''), world0)"
    by simp
  show ?thesis using h d t r h' r' a c1 c2 c3 by simp
qed

subsection \<open>Argument coercion in the handlers\<close>



subsection \<open>Exposing a service twice\<close>

text \<open>
  C3, as the code has it. The first \<open>ExposeService\<close> of a name need not succeed: when
  the tunnel process cannot be started it fails, the registry holds no entry for the
  name, and a second call, at which the process starts, succeeds.
\<close>

theorem exposeService_first_call_counterexample:
  "services world0 ''web'' = None
   \<and> exposeService env_no_wstun world0 ''web'' 8080
       = (Some (Errorf ''failed to start wstun: executable file not found''), world0)
   \<and> fst (exposeService env_ok (snd (exposeService env_no_wstun world0 ''web'' 8080))
            ''web'' 8080) = None"
  by (simp add: exposeService_def world0_fields env_no_wstun_def env_ok_def Let_def)

text \<open>
  C3, amended. If a first \<open>ExposeService(n, p)\<close> succeeds, then \<open>n\<close> was not in the
  registry before it, the registry now holds for \<open>n\<close> the entry of that call (local port
  \<open>p\<close>, status \<open>running\<close>, a public URL that is not empty) and is otherwise as before,
  and a second call for \<open>n\<close>, with no \<open>UnexposeService(n)\<close> between, fails with the
  already-exposed error and changes nothing, so that this one entry stays.
\<close>

theorem exposeService_twice:
  assumes "exposeService e1 w n p = (None, w1)"
  shows "services w n = None
       \<and> exposeService e2 w1 n p' = (Some (Errorf (''service '' @ n @ '' already exposed'')), w1)
       \<and> handleExposeService e2 w1 [AStr n, ANum f]
           = (\<lparr>result = ''ERROR'',
               message = ''Failed to expose service: service '' @ n @ '' already exposed''\<rparr>, w1)
       \<and> map_option Name (services w1 n) = Some n
       \<and> map_option LocalPort (services w1 n) = Some p
       \<and> map_option Status (services w1 n) = Some ''running''
       \<and> map_option PublicURL (services w1 n) = Some (wstunURL w @ ''/'' @ n)
       \<and> wstunURL w @ ''/'' @ n \<noteq> ''''
       \<and> (services w1)(n := None) = services w"
proof -
  from assms have absent: "services w n = None"
    by (auto simp add: exposeService_def split: if_splits)
  from assms absent obtain pid where
    w1: "w1 = snd (saveServicesConfig e1
           (w\<lparr>procs := insert pid (procs w),
              services := (services w)(n \<mapsto>
                \<lparr>Name = n, LocalPort = p, PublicURL = wstunURL w @ ''/'' @ n,
                 PID = pid, Status = ''running''\<rparr>)\<rparr>))"
    by (auto simp add: exposeService_def Let_def split: sum.splits)
  have keep: "services (snd (saveServicesConfig e v)) = services v" for e v
    by (simp add: saveServicesConfig_def os_WriteFile_def Let_def split: option.splits)
  have entry: "services w1 = (services w)(n \<mapsto>
                \<lparr>Name = n, LocalPort = p, PublicURL = wstunURL w @ ''/'' @ n,
                 PID = pid, Status = ''running''\<rparr>)"
    by (simp add: w1 keep)
  have second: "exposeService e2 w1 n p'
      = (Some (Errorf (''service '' @ n @ '' already exposed'')), w1)" for p'
    by (simp add: exposeService_def entry)
  have rest: "(services w1)(n := None) = services w"
    using absent by (simp add: entry fun_upd_idem)
  show ?thesis
    using absent second rest by (simp add: entry handleExposeService_def)
qed

theorem exposeService_twice_witness:
  "exposeService env_ok world0 ''db'' 5432 = (None, world_db)
   \<and> exposeService env_ok world_db ''db'' 5432
       = (Some (Errorf ''service db already exposed''), world_db)
   \<and> map_option Status (services world_db ''db'') = Some ''running''
   \<and> map_option PublicURL (services world_db ''db'')
       = Some ''wss://iotronic.example:8080/db''
   \<and> (services world_db)(''db'' := None) = services world0"
proof -
  have h: "exposeService env_ok world0 ''db'' 5432 = (None, world_db)"
    by (simp add: world_db_def exposeService_def world0_fields env_ok_def Let_def)
  from exposeService_twice [OF h, of env_ok 5432]
  show ?thesis using h by (simp add: world0_fields)
qed

subsection \<open>Endpoint selection at load\<close>

lemmas load_defs = LoadSettings_def LoadBoardSettings_def os_ReadFile_def world_new_def
  cfg0_def settingsPath_def filepath_Join_def env_ok_def settings0_def settings_main_def
  settings_token_def loadWampConfig_def agent0_def agent1_def Let_def

text \<open>
  C5, as the code has it. With no main agent and the status \<open>online\<close>, \<open>LoadSettings\<close>
  returns no error: the failure is only logged. After the first load no endpoint is
  selected and the status is \<open>first_boot\<close>; after a reload through \<open>SetConfig\<close> the
  endpoint selected before is still selected.
\<close>

theorem LoadSettings_online_counterexample:
  "MainAgent (iot_WAMP (Iotronic (settings0 ''online''))) = None
   \<and> cfg_Status (iot_Board (Iotronic (settings0 ''online''))) = ''online''
   \<and> fst (LoadSettings env_ok (world_new (settings0 ''online''))) = None
   \<and> WampConfig (board (snd (LoadSettings env_ok (world_new (settings0 ''online''))))) = None
   \<and> b_Status (board (snd (LoadSettings env_ok (world_new (settings0 ''online'')))))
       = ''first_boot''
   \<and> fst (SetConfig env_ok world0 (settings0 ''online'')) = None
   \<and> WampConfig (board (snd (SetConfig env_ok world0 (settings0 ''online'')))) = Some agent0"
  by (simp add: load_defs world0_def SetConfig_def SaveBoardSettings_def os_WriteFile_def)

text \<open>
  C5, amended. When the settings are loaded: a main agent, if there is one, is
  selected; otherwise, if the status is \<open>""\<close>, \<open>registered\<close> or \<open>first_boot\<close> and there is a
  registration agent, the registration agent is selected; otherwise, with no main agent
  and any other status, the selection is left as it was (none at the first load), the
  status in memory becomes \<open>first_boot\<close>, and \<open>LoadSettings\<close> still returns no error.
\<close>

theorem endpoint_selection:
  assumes "LoadBoardSettings e w (Home (cfg w)) = Inr s"
  shows "(MainAgent (iot_WAMP (Iotronic s)) = Some a
            \<longrightarrow> fst (LoadSettings e w) = None
              \<and> WampConfig (board (snd (LoadSettings e w))) = Some a)
       \<and> (MainAgent (iot_WAMP (Iotronic s)) = None
            \<and> cfg_Status (iot_Board (Iotronic s)) \<in> {'''', ''registered'', ''first_boot''}
            \<and> RegistrationAgent (iot_WAMP (Iotronic s)) = Some r
            \<longrightarrow> fst (LoadSettings e w) = None
              \<and> WampConfig (board (snd (LoadSettings e w))) = Some r)
       \<and> (MainAgent (iot_WAMP (Iotronic s)) = None
            \<and> cfg_Status (iot_Board (Iotronic s)) \<notin> {'''', ''registered'', ''first_boot''}
            \<longrightarrow> fst (LoadSettings e w) = None
              \<and> WampConfig (board (snd (LoadSettings e w))) = WampConfig (board w)
              \<and> b_Status (board (snd (LoadSettings e w))) = ''first_boot'')"
  using assms by (auto simp add: LoadSettings_def loadWampConfig_def Let_def)

theorem endpoint_selection_witness:
  "LoadBoardSettings env_ok (world_new (settings_main ''online''))
       (Home (cfg (world_new (settings_main ''online'')))) = Inr (settings_main ''online'')
   \<and> WampConfig (board (snd (LoadSettings env_ok (world_new (settings_main ''online'')))))
       = Some agent1
   \<and> cfg_Status (iot_Board (Iotronic (settings0 ''registered''))) = ''registered''
   \<and> WampConfig (board (snd (LoadSettings env_ok (world_new (settings0 ''registered'')))))
       = Some agent0
   \<and> cfg_Status (iot_Board (Iotronic (settings0 ''online''))) = ''online''
   \<and> fst (LoadSettings env_ok (world_new (settings0 ''online''))) = None
   \<and> WampConfig (board (snd (LoadSettings env_ok (world_new (settings0 ''online'')))))
       = WampConfig (board (world_new (settings0 ''online'')))
   \<and> b_Status (board (snd (LoadSettings env_ok (world_new (settings0 ''online'')))))
       = ''first_boot''"
proof -
  have l: "LoadBoardSettings env_ok (world_new s) (Home (cfg (world_new s))) = Inr s" for s
    by (simp add: LoadBoardSettings_def os_ReadFile_def world_new_def cfg0_def
        settingsPath_def filepath_Join_def env_ok_def)
  have m1: "MainAgent (iot_WAMP (Iotronic (settings_main ''online''))) = Some agent1"
    by (simp add: settings_main_def)
  have m2: "MainAgent (iot_WAMP (Iotronic (settings0 ''registered''))) = None
            \<and> cfg_Status (iot_Board (Iotronic (settings0 ''registered'')))
                \<in> {'''', ''registered'', ''first_boot''}
            \<and> RegistrationAgent (iot_WAMP (Iotronic (settings0 ''registered''))) = Some agent0"
    by (simp add: settings0_def)
  have m3: "MainAgent (iot_WAMP (Iotronic (settings0 ''online''))) = None
            \<and> cfg_Status (iot_Board (Iotronic (settings0 ''online'')))
                \<notin> {'''', ''registered'', ''first_boot''}"
    by (simp add: settings0_def)
  have st: "cfg_Status (iot_Board (Iotronic (settings0 x))) = x" for x
    by (simp add: settings0_def)
  from endpoint_selection [OF l, of "settings_main ''online''" agent1] m1
  have r1: "WampConfig (board (snd (LoadSettings env_ok (world_new (settings_main ''online'')))))
       = Some agent1"
    by blast
  from endpoint_selection [OF l, of "settings0 ''registered''" _ agent0] m2
  have r2: "WampConfig (board (snd (LoadSettings env_ok (world_new (settings0 ''registered'')))))
       = Some agent0"
    by blast
  from endpoint_selection [OF l, of "settings0 ''online''"] m3
  have r3: "fst (LoadSettings env_ok (world_new (settings0 ''online''))) = None
   \<and> WampConfig (board (snd (LoadSettings env_ok (world_new (settings0 ''online'')))))
       = WampConfig (board (world_new (settings0 ''online'')))
   \<and> b_Status (board (snd (LoadSettings env_ok (world_new (settings0 ''online'')))))
       = ''first_boot''"
    by blast
  show ?thesis using l r1 r2 r3 by (simp add: st)
qed

subsection \<open>Persistence of the status\<close>

text \<open>
  C8, as the code has it. A status that \<open>LoadSettings\<close> changes is not written back:
  after the load of settings with status \<open>online\<close> and no main agent, and after the load
  of settings with status \<open>registered\<close> and the registration token as code, the board's
  status is \<open>first_boot\<close> while \<open>settings.json\<close> holds the status it held before.
\<close>

theorem LoadSettings_status_not_persisted_counterexample:
  "b_Status (board (snd (LoadSettings env_ok (world_new (settings0 ''online'')))))
       = ''first_boot''
   \<and> disk (snd (LoadSettings env_ok (world_new (settings0 ''online''))))
        ''/var/lib/iotronic/settings.json'' = Some (SettingsDoc (settings0 ''online''))
   \<and> cfg_Status (iot_Board (Iotronic (settings0 ''online''))) = ''online''
   \<and> b_Status (board (snd (LoadSettings env_ok (world_new settings_token)))) = ''first_boot''
   \<and> disk (snd (LoadSettings env_ok (world_new settings_token)))
        ''/var/lib/iotronic/settings.json'' = Some (SettingsDoc settings_token)
   \<and> cfg_Status (iot_Board (Iotronic settings_token)) = ''registered''"
  by (simp add: load_defs)

text \<open>
  C8, amended. \<open>LoadSettings\<close> writes nothing, at the first load as at any later one, so
  a status it changes (on an endpoint-selection failure or for a board with the
  registration token) is changed in memory only. \<open>UpdateStatus\<close> writes the new status
  through: it sets the status in memory and saves the settings in the same call, and when
  the write succeeds the status in memory and the status in \<open>settings.json\<close> are both
  the new one.
\<close>

theorem UpdateStatus_write_through:
  "disk (snd (LoadSettings e' w')) = disk w'
   \<and> (settings (board w) = Some s
        \<and> WriteFile_err e (settingsPath e (Home (cfg w))) = None
      \<longrightarrow> fst (UpdateStatus e w st) = None
        \<and> b_Status (board (snd (UpdateStatus e w st))) = st
        \<and> disk (snd (UpdateStatus e w st)) (settingsPath e (Home (cfg w)))
            = Some (SettingsDoc (set_Status s st))
        \<and> cfg_Status (iot_Board (Iotronic (set_Status s st))) = st)"
proof -
  have ld: "disk (snd (LoadSettings e' w')) = disk w'"
    by (simp add: LoadSettings_def Let_def split: sum.splits prod.splits option.splits)
  have up: "fst (UpdateStatus e w st) = None
        \<and> b_Status (board (snd (UpdateStatus e w st))) = st
        \<and> disk (snd (UpdateStatus e w st)) (settingsPath e (Home (cfg w)))
            = Some (SettingsDoc (set_Status s st))
        \<and> cfg_Status (iot_Board (Iotronic (set_Status s st))) = st"
    if "settings (board w) = Some s"
      "WriteFile_err e (settingsPath e (Home (cfg w))) = None"
    using that
    by (simp add: UpdateStatus_def SaveBoardSettings_def os_WriteFile_def set_Status_def
        Let_def)
  from ld up show ?thesis by blast
qed

theorem UpdateStatus_write_through_witness:
  "settings (board (world_new (settings0 ''online''))) = None
   \<and> disk (snd (LoadSettings env_ok (world_new (settings0 ''online''))))
       = disk (world_new (settings0 ''online''))
   \<and> disk (snd (LoadSettings env_ok (world_new settings_token)))
       = disk (world_new settings_token)
   \<and> settings (board world0) = Some (settings0 ''registered'')
   \<and> WriteFile_err env_ok (settingsPath env_ok (Home (cfg world0))) = None
   \<and> fst (UpdateStatus env_ok world0 ''online'') = None
   \<and> b_Status (board (snd (UpdateStatus env_ok world0 ''online''))) = ''online''
   \<and> disk (snd (UpdateStatus env_ok world0 ''online'')) ''/var/lib/iotronic/settings.json''
       = Some (SettingsDoc (set_Status (settings0 ''registered'') ''online''))
   \<and> cfg_Status (iot_Board (Iotronic (set_Status (settings0 ''registered'') ''online'')))
       = ''online''"
proof -
  have n: "settings (board (world_new (settings0 ''online''))) = None"
    by (simp add: world_new_def)
  have h1: "settings (board world0) = Some (settings0 ''registered'')"
    by (simp add: world0_fields)
  have h2: "WriteFile_err env_ok (settingsPath env_ok (Home (cfg world0))) = None"
    by (simp add: env_ok_def)
  have p: "settingsPath env_ok (Home (cfg world0)) = ''/var/lib/iotronic/settings.json''"
    by (simp add: world0_fields settings_json_plain env_ok_def)
  from UpdateStatus_write_through [of env_ok "world_new (settings0 ''online'')" world0
      "settings0 ''registered''" env_ok "''online''"] h1 h2
  have c1: "disk (snd (LoadSettings env_ok (world_new (settings0 ''online''))))
       = disk (world_new (settings0 ''online''))
     \<and> fst (UpdateStatus env_ok world0 ''online'') = None
     \<and> b_Status (board (snd (UpdateStatus env_ok world0 ''online''))) = ''online''
     \<and> disk (snd (UpdateStatus env_ok world0 ''online''))
          (settingsPath env_ok (Home (cfg world0)))
         = Some (SettingsDoc (set_Status (settings0 ''registered'') ''online''))
     \<and> cfg_Status (iot_Board (Iotronic (set_Status (settings0 ''registered'') ''online'')))
         = ''online''"
    by blast
  from UpdateStatus_write_through [of env_ok "world_new settings_token"]
  have c2: "disk (snd (LoadSettings env_ok (world_new settings_token)))
       = disk (world_new settings_token)"
    by blast
  show ?thesis using n h1 h2 c1 c2 by (simp add: p)
qed

subsection \<open>Persisted registries\<close>

lemma saveServicesConfig_services [simp]:
  "services (snd (saveServicesConfig e v)) = services v"
  by (simp add: saveServicesConfig_def os_WriteFile_def Let_def split: option.splits)

lemma saveServicesConfig_cfg [simp]:
  "cfg (snd (saveServicesConfig e v)) = cfg v"
  by (simp add: saveServicesConfig_def os_WriteFile_def Let_def split: option.splits)

text \<open>
  C6, as the code has it. The webservice manager has no persisted registry: a
  successful \<open>EnableWebService\<close> adds the artifact of the name to the disk and nothing
  else, and \<open>DisableWebService\<close> removes that artifact and writes nothing. Here the disk
  holds \<open>settings.json\<close> only, before the one and after the other.
\<close>

theorem enableWebService_no_registry_document_counterexample:
  "disk world0 = [''/var/lib/iotronic/settings.json'' \<mapsto> SettingsDoc (settings0 ''registered'')]
   \<and> enableWebService env_ok world0 ''api'' 3000 9000 = (None, world_api)
   \<and> webservices world_api ''api''
       = Some \<lparr>ws_Name = ''api'', ws_LocalPort = 3000, ws_PublicPort = 9000,
               ws_Domain = '''', ws_Status = ''enabled''\<rparr>
   \<and> disk world_api
       = (disk world0)(''/etc/nginx/conf.d/lr_api.conf'' \<mapsto> Raw (nginxConf 9000 3000))
   \<and> fst (disableWebService env_ok world_api ''api'') = None
   \<and> webservices (snd (disableWebService env_ok world_api ''api'')) ''api'' = None
   \<and> disk (snd (disableWebService env_ok world_api ''api'')) = disk world0"
proof -
  have e: "enableWebService env_ok world0 ''api'' 3000 9000 = (None, world_api)"
    by (simp add: world_api_def enableWebService_def os_WriteFile_def reloadNginx_def
        world0_fields confPath_plain env_ok_def)
  have d: "disk (snd (disableWebService env_ok world_api ''api'')) = disk world0"
    by (simp add: disableWebService_def removeWebService_def os_Remove_def Let_def
        world_api_eq confPath_plain env_ok_def world0_fields)
  have f: "fst (disableWebService env_ok world_api ''api'') = None
     \<and> webservices (snd (disableWebService env_ok world_api ''api'')) ''api'' = None"
    by (simp add: disableWebService_def removeWebService_def Let_def world_api_eq)
  show ?thesis using e d f by (simp add: world0_fields world_api_eq)
qed

text \<open>
  C6, amended. Only the service manager keeps a persisted registry: every successful
  \<open>ExposeService\<close> and every \<open>UnexposeService\<close> of a registered name rewrites
  \<open>services.json\<close> with the whole \<open>services\<close> map as it is after the call, when the write
  succeeds. \<open>EnableWebService\<close> and \<open>DisableWebService\<close> leave every file other than the
  artifact of their name as it was.
\<close>

theorem registry_persistence:
  assumes "WriteFile_err e (filepath_Join e (Home (cfg w)) ''services.json'') = None"
  shows "(fst (exposeService e w n p) = None
            \<longrightarrow> disk (snd (exposeService e w n p)) (filepath_Join e (Home (cfg w)) ''services.json'')
                = Some (ServicesDoc (services (snd (exposeService e w n p)))))
       \<and> (services w n' \<noteq> None
            \<longrightarrow> disk (snd (unexposeService e w n')) (filepath_Join e (Home (cfg w)) ''services.json'')
                = Some (ServicesDoc (services (snd (unexposeService e w n')))))
       \<and> (q \<noteq> confPath e name
            \<longrightarrow> disk (snd (enableWebService e w name lp pp)) q = disk w q
              \<and> disk (snd (disableWebService e w name)) q = disk w q)"
proof -
  have a: "disk (snd (exposeService e w n p)) (filepath_Join e (Home (cfg w)) ''services.json'')
                = Some (ServicesDoc (services (snd (exposeService e w n p))))"
    if "fst (exposeService e w n p) = None"
    using that assms
    by (auto simp add: exposeService_def Let_def saveServicesConfig_def os_WriteFile_def
        split: if_splits sum.splits)
  have b: "disk (snd (unexposeService e w n')) (filepath_Join e (Home (cfg w)) ''services.json'')
                = Some (ServicesDoc (services (snd (unexposeService e w n'))))"
    if "services w n' \<noteq> None"
    using that assms
    by (auto simp add: unexposeService_def stopService_def Let_def saveServicesConfig_def os_WriteFile_def)
  have c: "disk (snd (enableWebService e w name lp pp)) q = disk w q"
    if "q \<noteq> confPath e name"
    using that
    by (simp add: enableWebService_def os_WriteFile_def os_Remove_other
        split: option.splits)
  have d: "disk (snd (disableWebService e w name)) q = disk w q"
    if "q \<noteq> confPath e name"
    using that
    by (simp add: disableWebService_def removeWebService_def os_Remove_other Let_def)
  from a b c d show ?thesis by blast
qed

lemma world_db_eq:
  "world_db = world0
     \<lparr>disk := (disk world0)(''/var/lib/iotronic/services.json'' \<mapsto> ServicesDoc
        [''db'' \<mapsto> \<lparr>Name = ''db'', LocalPort = 5432,
                   PublicURL = ''wss://iotronic.example:8080/db'', PID = 4242,
                   Status = ''running''\<rparr>]),
      procs := {4242},
      services := [''db'' \<mapsto> \<lparr>Name = ''db'', LocalPort = 5432,
                   PublicURL = ''wss://iotronic.example:8080/db'', PID = 4242,
                   Status = ''running''\<rparr>]\<rparr>"
  by (simp add: world_db_def exposeService_def saveServicesConfig_def os_WriteFile_def
      world0_fields env_ok_def Let_def services_json_plain)

theorem registry_persistence_witness:
  "WriteFile_err env_ok (filepath_Join env_ok (Home (cfg world_db)) ''services.json'') = None
   \<and> fst (exposeService env_ok world_db ''web'' 8080) = None
   \<and> disk (snd (exposeService env_ok world_db ''web'' 8080)) ''/var/lib/iotronic/services.json''
       = Some (ServicesDoc (services (snd (exposeService env_ok world_db ''web'' 8080))))
   \<and> services world_db ''db'' \<noteq> None
   \<and> disk (snd (unexposeService env_ok world_db ''db'')) ''/var/lib/iotronic/services.json''
       = Some (ServicesDoc (services (snd (unexposeService env_ok world_db ''db''))))
   \<and> ''/var/lib/iotronic/services.json'' \<noteq> confPath env_ok ''api''
   \<and> disk (snd (enableWebService env_ok world_db ''api'' 3000 9000))
        ''/var/lib/iotronic/services.json'' = disk world_db ''/var/lib/iotronic/services.json''
   \<and> disk (snd (disableWebService env_ok world_db ''api''))
        ''/var/lib/iotronic/services.json'' = disk world_db ''/var/lib/iotronic/services.json''"
proof -
  have h: "WriteFile_err env_ok (filepath_Join env_ok (Home (cfg world_db)) ''services.json'')
      = None"
    by (simp add: env_ok_def)
  have p: "filepath_Join env_ok (Home (cfg world_db)) ''services.json''
      = ''/var/lib/iotronic/services.json''"
    by (simp add: world_db_eq world0_fields services_json_plain env_ok_def)
  have x: "fst (exposeService env_ok world_db ''web'' 8080) = None"
    by (simp add: exposeService_def world_db_eq env_ok_def Let_def)
  have y: "services world_db ''db'' \<noteq> None"
    by (simp add: world_db_eq)
  have z: "''/var/lib/iotronic/services.json'' \<noteq> confPath env_ok ''api''"
    by (simp add: confPath_plain env_ok_def)
  from registry_persistence [OF h, of "''web''" 8080 "''db''"
      "''/var/lib/iotronic/services.json''" "''api''" 3000 9000] x y z
  show ?thesis using h by (simp add: p)
qed

subsection \<open>A write that fails\<close>

text \<open>
  C7, as the code has it. On a disk that cannot be written, \<open>saveServicesConfig\<close> fails,
  and \<open>ExposeService\<close> returns success all the same: the handler replies \<open>SUCCESS\<close>.
\<close>

theorem exposeService_save_failure_counterexample:
  "fst (saveServicesConfig env_read_only world0) = Some (Errorf ''read-only file system'')
   \<and> fst (exposeService env_read_only world0 ''web'' 8080) = None
   \<and> result (fst (handleExposeService env_read_only world0 [AStr ''web'', ANum 8080]))
       = ''SUCCESS''
   \<and> map_option Status (services (snd (exposeService env_read_only world0 ''web'' 8080)) ''web'')
       = Some ''running''
   \<and> disk (snd (exposeService env_read_only world0 ''web'' 8080)) = disk world0"
  by (simp add: exposeService_def handleExposeService_def saveServicesConfig_def
      os_WriteFile_def world0_fields env_read_only_def env_ok_def Let_def go_int_def)

text \<open>
  C7, amended. When the write of \<open>services.json\<close> fails, \<open>ExposeService\<close> and
  \<open>UnexposeService\<close> return success: the failure is only logged, and the change of the
  \<open>services\<close> map is kept. When the write of \<open>settings.json\<close> fails, \<open>UpdateStatus\<close> and
  \<open>SetUpdateTime\<close> return that error to their caller and keep the change they made in
  memory. Each holds whatever becomes of the other write, and in each case the disk is as
  before.
\<close>

theorem persistence_failure:
  "(WriteFile_err e (filepath_Join e (Home (cfg w)) ''services.json'') = Some m
      \<and> services w n = None
      \<and> cmd_Start e [WstunBin (cfg w), ''client'', ''-s'', wstunURL w,
                     ''-t'', ''127.0.0.1:'' @ Sprintf_d p] = Inr pid
      \<longrightarrow> exposeService e w n p
          = (None, w\<lparr>procs := insert pid (procs w),
                     services := (services w)(n \<mapsto>
                       \<lparr>Name = n, LocalPort = p, PublicURL = wstunURL w @ ''/'' @ n,
                        PID = pid, Status = ''running''\<rparr>)\<rparr>))
   \<and> (WriteFile_err e (filepath_Join e (Home (cfg w)) ''services.json'') = Some m
      \<and> services w n' \<noteq> None
      \<longrightarrow> fst (unexposeService e w n') = None
        \<and> services (snd (unexposeService e w n')) = (services w)(n' := None)
        \<and> disk (snd (unexposeService e w n')) = disk w)
   \<and> (WriteFile_err e (settingsPath e (Home (cfg w))) = Some m'
      \<and> settings (board w) = Some s
      \<longrightarrow> fst (UpdateStatus e w st)
          = Some (Errorf (''failed to write settings file: '' @ m'))
        \<and> b_Status (board (snd (UpdateStatus e w st))) = st
        \<and> settings (board (snd (UpdateStatus e w st))) = Some (set_Status s st)
        \<and> disk (snd (UpdateStatus e w st)) = disk w
        \<and> fst (SetUpdateTime e w)
          = Some (Errorf (''failed to write settings file: '' @ m'))
        \<and> UpdatedAt (board (snd (SetUpdateTime e w))) = Now e
        \<and> disk (snd (SetUpdateTime e w)) = disk w)"
proof -
  have a: "exposeService e w n p
                = (None, w\<lparr>procs := insert pid (procs w),
                           services := (services w)(n \<mapsto>
                             \<lparr>Name = n, LocalPort = p, PublicURL = wstunURL w @ ''/'' @ n,
                              PID = pid, Status = ''running''\<rparr>)\<rparr>)"
    if "WriteFile_err e (filepath_Join e (Home (cfg w)) ''services.json'') = Some m"
      "services w n = None"
      "cmd_Start e [WstunBin (cfg w), ''client'', ''-s'', wstunURL w,
                    ''-t'', ''127.0.0.1:'' @ Sprintf_d p] = Inr pid"
    using that
    by (simp add: exposeService_def Let_def saveServicesConfig_def os_WriteFile_def)
  have b: "fst (unexposeService e w n') = None
              \<and> services (snd (unexposeService e w n')) = (services w)(n' := None)
              \<and> disk (snd (unexposeService e w n')) = disk w"
    if "WriteFile_err e (filepath_Join e (Home (cfg w)) ''services.json'') = Some m"
      "services w n' \<noteq> None"
    using that
    by (auto simp add: unexposeService_def stopService_def Let_def saveServicesConfig_def
        os_WriteFile_def)
  have c: "fst (UpdateStatus e w st)
                = Some (Errorf (''failed to write settings file: '' @ m'))
              \<and> b_Status (board (snd (UpdateStatus e w st))) = st
              \<and> settings (board (snd (UpdateStatus e w st))) = Some (set_Status s st)
              \<and> disk (snd (UpdateStatus e w st)) = disk w
              \<and> fst (SetUpdateTime e w)
                = Some (Errorf (''failed to write settings file: '' @ m'))
              \<and> UpdatedAt (board (snd (SetUpdateTime e w))) = Now e
              \<and> disk (snd (SetUpdateTime e w)) = disk w"
    if "WriteFile_err e (settingsPath e (Home (cfg w))) = Some m'"
      "settings (board w) = Some s"
    using that
    by (simp add: UpdateStatus_def SetUpdateTime_def SaveBoardSettings_def os_WriteFile_def
        Let_def)
  from a b c show ?thesis by blast
qed

theorem persistence_failure_witness:
  "WriteFile_err env_services_ro
       (filepath_Join env_services_ro (Home (cfg world_db)) ''services.json'')
       = Some ''permission denied''
   \<and> WriteFile_err env_services_ro (settingsPath env_services_ro (Home (cfg world_db))) = None
   \<and> services world_db ''web'' = None
   \<and> fst (exposeService env_services_ro world_db ''web'' 8080) = None
   \<and> map_option Status (services (snd (exposeService env_services_ro world_db ''web'' 8080))
        ''web'') = Some ''running''
   \<and> services world_db ''db'' \<noteq> None
   \<and> fst (unexposeService env_services_ro world_db ''db'') = None
   \<and> services (snd (unexposeService env_services_ro world_db ''db'')) ''db'' = None
   \<and> disk (snd (unexposeService env_services_ro world_db ''db'')) = disk world_db
   \<and> WriteFile_err env_settings_ro (settingsPath env_settings_ro (Home (cfg world_db)))
       = Some ''permission denied''
   \<and> WriteFile_err env_settings_ro
       (filepath_Join env_settings_ro (Home (cfg world_db)) ''services.json'') = None
   \<and> settings (board world_db) = Some (settings0 ''registered'')
   \<and> fst (UpdateStatus env_settings_ro world_db ''online'')
       = Some (Errorf ''failed to write settings file: permission denied'')
   \<and> b_Status (board (snd (UpdateStatus env_settings_ro world_db ''online''))) = ''online''
   \<and> disk (snd (UpdateStatus env_settings_ro world_db ''online'')) = disk world_db
   \<and> fst (SetUpdateTime env_settings_ro world_db)
       = Some (Errorf ''failed to write settings file: permission denied'')"
proof -
  have cf: "cfg world_db = cfg0"
    by (simp add: world_db_eq world0_fields)
  have h1: "WriteFile_err env_services_ro
      (filepath_Join env_services_ro (Home (cfg world_db)) ''services.json'')
       = Some ''permission denied''"
    by (simp add: cf services_json_plain env_services_ro_def env_ok_def)
  have h1': "WriteFile_err env_services_ro (settingsPath env_services_ro (Home (cfg world_db)))
       = None"
    by (simp add: cf settings_json_plain env_services_ro_def env_ok_def)
  have h2: "WriteFile_err env_settings_ro (settingsPath env_settings_ro (Home (cfg world_db)))
       = Some ''permission denied''"
    by (simp add: cf settings_json_plain env_settings_ro_def env_ok_def)
  have h2': "WriteFile_err env_settings_ro
       (filepath_Join env_settings_ro (Home (cfg world_db)) ''services.json'') = None"
    by (simp add: cf services_json_plain env_settings_ro_def env_ok_def)
  have x: "services world_db ''web'' = None"
    by (simp add: world_db_eq)
  have x': "cmd_Start env_services_ro
        [WstunBin (cfg world_db), ''client'', ''-s'', wstunURL world_db,
         ''-t'', ''127.0.0.1:'' @ Sprintf_d 8080] = Inr 4242"
    by (simp add: env_services_ro_def env_ok_def)
  have y: "services world_db ''db'' \<noteq> None"
    by (simp add: world_db_eq)
  have z: "settings (board world_db) = Some (settings0 ''registered'')"
    by (simp add: world_db_eq world0_fields)
  from persistence_failure [of env_services_ro world_db "''permission denied''" "''web''"
      8080 4242 "''db''"] h1 x x' y
  have c1: "exposeService env_services_ro world_db ''web'' 8080
          = (None, world_db\<lparr>procs := insert 4242 (procs world_db),
                     services := (services world_db)(''web'' \<mapsto>
                       \<lparr>Name = ''web'', LocalPort = 8080,
                        PublicURL = wstunURL world_db @ ''/'' @ ''web'',
                        PID = 4242, Status = ''running''\<rparr>)\<rparr>)
     \<and> fst (unexposeService env_services_ro world_db ''db'') = None
     \<and> services (snd (unexposeService env_services_ro world_db ''db''))
         = (services world_db)(''db'' := None)
     \<and> disk (snd (unexposeService env_services_ro world_db ''db'')) = disk world_db"
    by blast
  from persistence_failure [of env_settings_ro world_db _ _ _ _ _ "''permission denied''"
      "settings0 ''registered''" "''online''"] h2 z
  have c2: "fst (UpdateStatus env_settings_ro world_db ''online'')
          = Some (Errorf (''failed to write settings file: '' @ ''permission denied''))
     \<and> b_Status (board (snd (UpdateStatus env_settings_ro world_db ''online''))) = ''online''
     \<and> disk (snd (UpdateStatus env_settings_ro world_db ''online'')) = disk world_db
     \<and> fst (SetUpdateTime env_settings_ro world_db)
          = Some (Errorf (''failed to write settings file: '' @ ''permission denied''))"
    by blast
  show ?thesis using h1 h1' h2 h2' x y z c1 c2 by simp
qed

subsection \<open>Registration and reconnection\<close>

lemma Disconnect_registered [simp]:
  "registered (snd (Disconnect w)) = registered w"
  by (simp add: Disconnect_def)

lemma Connect_registered [simp]:
  "registered (snd (Connect e w)) = registered w"
  by (simp add: Connect_def Let_def split: sum.splits)

lemma Reconnect_registered [simp]:
  "registered (snd (Reconnect e w)) = registered w"
  by (simp add: Reconnect_def Let_def split: prod.splits option.splits)
    (metis Connect_registered Disconnect_registered snd_conv)

lemma KeepAlive_registered:
  "registered (KeepAlive w evs) = registered w"
  by (induction w evs rule: KeepAlive.induct) simp_all

lemma Reconnect_session:
  assumes "fst (Reconnect e w) = None"
  shows "connected (wamp (snd (Reconnect e w)))
       \<and> ConnectNet e (GetWampURL (board w)) (GetWampRealm (board w))
           = Inr (sessionID (wamp (snd (Reconnect e w))))
       \<and> SessionID (board (snd (Reconnect e w)))
           = decimal (unat (sessionID (wamp (snd (Reconnect e w)))))"
  using assms
  by (auto simp add: Reconnect_def Disconnect_def Connect_def Let_def
      split: if_splits sum.splits)

lemma register_all_ok:
  "fst (register_all e w ps) = None \<Longrightarrow>
     registered (snd (register_all e w ps)) = registered w @ ps"
proof (induction ps arbitrary: w)
  case Nil
  then show ?case by simp
next
  case (Cons p ps)
  then show ?case
    by (auto simp add: Register_def split: if_splits option.splits)
qed

lemma world_started_fields:
  "registered world_started =
     [''iotronic.1.b-01.DevicePing'', ''iotronic.1.b-01.DeviceInfo'',
      ''iotronic.1.b-01.DeviceStatus'', ''iotronic.1.b-01.ExposeService'',
      ''iotronic.1.b-01.UnexposeService'', ''iotronic.1.b-01.ServicesList'',
      ''iotronic.1.b-01.EnableWebService'', ''iotronic.1.b-01.DisableWebService'',
      ''iotronic.1.b-01.WebServicesList'', ''iotronic.1.b-01.ProxyInfo'']"
  "wamp world_started = \<lparr>client = Some 1, connected = True, sessionID = 1\<rparr>"
  "SessionID (board world_started) = ''1''"
  "UUID (board world_started) = ''b-01''"
  "WampConfig (board world_started) = Some agent0"
  by (simp_all add: world_started_def registerRPCs_def Register_def Connect_def
      GetWampURL_def GetWampRealm_def world0_fields agent0_def env_ok_def procedure_name_def
      device_verbs_def service_verbs_def webservice_verbs_def decimal.simps digit_def Let_def)

text \<open>
  C2, as the code has it. After start-up with session 1, a reconnect that obtains
  session 2 succeeds and stores \<open>2\<close> in the board, and no manager registers again: the
  procedures registered are the ten of start-up, each built from session 1, and none
  built from session 2.
\<close>

theorem Reconnect_no_registration_counterexample:
  "fst (Reconnect env_session2 world_started) = None
   \<and> SessionID (board (snd (Reconnect env_session2 world_started))) = ''2''
   \<and> registered (snd (Reconnect env_session2 world_started)) =
       [''iotronic.1.b-01.DevicePing'', ''iotronic.1.b-01.DeviceInfo'',
        ''iotronic.1.b-01.DeviceStatus'', ''iotronic.1.b-01.ExposeService'',
        ''iotronic.1.b-01.UnexposeService'', ''iotronic.1.b-01.ServicesList'',
        ''iotronic.1.b-01.EnableWebService'', ''iotronic.1.b-01.DisableWebService'',
        ''iotronic.1.b-01.WebServicesList'', ''iotronic.1.b-01.ProxyInfo'']
   \<and> procedure_name (board (snd (Reconnect env_session2 world_started))) ''ExposeService''
       = ''iotronic.2.b-01.ExposeService''
   \<and> ''iotronic.2.b-01.ExposeService''
       \<notin> set (registered (snd (Reconnect env_session2 world_started)))"
proof -
  have r: "Reconnect env_session2 world_started =
      (None, world_started\<lparr>wamp := \<lparr>client = Some 2, connected = True, sessionID = 2\<rparr>,
                           board := (board world_started)\<lparr>SessionID := ''2''\<rparr>\<rparr>)"
    by (simp add: Reconnect_def Disconnect_def Connect_def GetWampURL_def GetWampRealm_def
        world_started_fields agent0_def env_session2_def env_ok_def decimal.simps digit_def
        Let_def)
  show ?thesis
    by (simp add: r world_started_fields procedure_name_def)
qed

text \<open>
  C2, amended. \<open>registerRPCs\<close> builds every name from the session identifier the board
  holds when it runs, and a successful reconnect stores in the board the identifier of
  the session it obtained. But neither \<open>Reconnect\<close> nor the \<open>KeepAlive\<close> loop registers
  anything: a manager registers only when its \<open>Start\<close> runs \<open>registerRPCs\<close>, so the names
  registered before a reconnect are the names registered after it.
\<close>

theorem registration_only_at_start:
  "registered (snd (Reconnect e w)) = registered w
   \<and> registered (KeepAlive w evs) = registered w
   \<and> (fst (Reconnect e w) = None
        \<longrightarrow> connected (wamp (snd (Reconnect e w)))
          \<and> ConnectNet e (GetWampURL (board w)) (GetWampRealm (board w))
              = Inr (sessionID (wamp (snd (Reconnect e w))))
          \<and> SessionID (board (snd (Reconnect e w)))
              = decimal (unat (sessionID (wamp (snd (Reconnect e w))))))
   \<and> (fst (registerRPCs verbs e' w) = None
        \<longrightarrow> registered (snd (registerRPCs verbs e' w))
            = registered w @ map (procedure_name (board w)) verbs)"
  using Reconnect_session [of e w] register_all_ok [of e' w]
  by (simp add: KeepAlive_registered registerRPCs_def)

theorem registration_only_at_start_witness:
  "fst (Reconnect env_session2 world_started) = None
   \<and> registered (snd (Reconnect env_session2 world_started)) = registered world_started
   \<and> registered (KeepAlive world_started [Tick env_session2, Tick env_ok, Done])
       = registered world_started
   \<and> SessionID (board (snd (Reconnect env_session2 world_started)))
       = decimal (unat (sessionID (wamp (snd (Reconnect env_session2 world_started)))))
   \<and> fst (registerRPCs service_verbs env_ok (snd (Reconnect env_session2 world_started)))
       = None
   \<and> registered (snd (registerRPCs service_verbs env_ok
        (snd (Reconnect env_session2 world_started))))
       = registered (snd (Reconnect env_session2 world_started))
         @ [''iotronic.2.b-01.ExposeService'', ''iotronic.2.b-01.UnexposeService'',
            ''iotronic.2.b-01.ServicesList'']"
proof -
  have r: "Reconnect env_session2 world_started =
      (None, world_started\<lparr>wamp := \<lparr>client = Some 2, connected = True, sessionID = 2\<rparr>,
                           board := (board world_started)\<lparr>SessionID := ''2''\<rparr>\<rparr>)"
    by (simp add: Reconnect_def Disconnect_def Connect_def GetWampURL_def GetWampRealm_def
        world_started_fields agent0_def env_session2_def env_ok_def decimal.simps digit_def
        Let_def)
  have h1: "fst (Reconnect env_session2 world_started) = None"
    by (simp add: r)
  have h2: "fst (registerRPCs service_verbs env_ok (snd (Reconnect env_session2 world_started)))
      = None"
    by (simp add: r registerRPCs_def Register_def service_verbs_def env_ok_def)
  have n: "map (procedure_name (board (snd (Reconnect env_session2 world_started))))
        service_verbs
      = [''iotronic.2.b-01.ExposeService'', ''iotronic.2.b-01.UnexposeService'',
         ''iotronic.2.b-01.ServicesList'']"
    by (simp add: r procedure_name_def service_verbs_def world_started_fields)
  from registration_only_at_start [of env_session2 world_started
      "[Tick env_session2, Tick env_ok, Done]"]
    registration_only_at_start [of env_session2 "snd (Reconnect env_session2 world_started)"
      "[]" service_verbs env_ok]
  show ?thesis using h1 h2 by (simp add: n)
qed

end
